theory Spec2Isabelle
  imports Main
begin

section \<open>The fine-tuning driver \<open>main.py\<close>\<close>

text \<open>
  \<open>main.py\<close> is a linear script: it parses one command-line option, moves to its own
  directory, and then calls helper modules in a fixed order. Its observable behaviour is
  the sequence of calls it makes, the arguments it passes and the exception (if any) that
  leaves it. The model therefore threads a process state (working directory and the trace
  of calls made so far) through the script and returns either the exception that
  propagated or the result.

  The helpers (\<open>user_login\<close>, the loaders, the dataset functions, the trainer functions,
  \<open>CustomLogger\<close>) live in modules that are not part of \<open>main.py\<close>. What they return, and
  whether they raise, is a parameter of the model (the record \<open>env\<close>): each call asks the
  environment for its outcome, giving it the call with its arguments and the trace so far.
  The helpers are taken to leave the working directory alone; only \<open>os.chdir\<close> in the
  script changes it.
\<close>

subsection \<open>Values\<close>

text \<open>Framework objects (logger, model, tokenizer, adapter configuration, trainer) are
  opaque handles.\<close>

datatype obj = Obj nat

text \<open>Exceptions: whatever a helper raises, the two lookups that \<open>main\<close> performs itself
  (\<open>dataset["train_demo"]\<close>, \<open>[...][0]\<close>), and the exit of \<open>argparse\<close>.\<close>

datatype exn = Exn string | KeyError string | IndexError | SystemExit nat

text \<open>A dataset maps split names to splits; a split maps column names to columns.\<close>

type_synonym split = "(string \<times> string list) list"
type_synonym dataset = "(string \<times> split) list"

definition getitem :: "(string \<times> 'a) list \<Rightarrow> string \<Rightarrow> exn + 'a" where
  "getitem d k = (case map_of d k of None \<Rightarrow> Inl (KeyError k) | Some v \<Rightarrow> Inr v)"

definition getitem0 :: "'a list \<Rightarrow> exn + 'a" where
  "getitem0 xs = (case xs of [] \<Rightarrow> Inl IndexError | x # _ \<Rightarrow> Inr x)"

text \<open>\<open>os.path.join\<close> of \<open>posixpath\<close>: a component that starts with the separator replaces
  what came before; otherwise it is appended, with a separator unless the path so far is
  empty or already ends with one.\<close>

definition join_step :: "string \<Rightarrow> string \<Rightarrow> string" where
  "join_step path b =
     (if take 1 b = ''/'' then b
      else if path = [] \<or> last path = CHR ''/'' then path @ b
      else path @ ''/'' @ b)"

fun os_path_join :: "string \<Rightarrow> string list \<Rightarrow> string" where
  "os_path_join a [] = a"
| "os_path_join a (b # p) = os_path_join (join_step a b) p"

text \<open>The text that an f-string inserts for \<open>args.model\<close>, which is a string or \<open>None\<close>.\<close>

fun format_value :: "string option \<Rightarrow> string" where
  "format_value None = ''None''"
| "format_value (Some s) = s"

subsection \<open>Calls, traces and the process state\<close>

text \<open>The two loader functions that \<open>load_func\<close> can be bound to.\<close>

datatype loader = load_model_and_tokenizer | load_unsloth_model_and_tokenizer

text \<open>
  One constructor for each call the script makes, with the arguments in the order of the
  source:
  \<^item> \<open>CustomLogger name level\<close>
  \<^item> \<open>User_login logger\<close>
  \<^item> \<open>Logger_info logger message\<close>
  \<^item> \<open>Load_func load_func base_model logger\<close>
  \<^item> \<open>Load_and_process_dataset tokenizer dataset_name embedding_model_name db_directory logger\<close>
  \<^item> \<open>Load_and_prepare_unsloth_dataset tokenizer dataset_name logger\<close>
  \<^item> \<open>Create_SFT_trainer model tokenizer train eval peft_config push_to_hub logger num_train_epochs\<close>
  \<^item> \<open>Train_and_save_model trainer new_model push_to_hub logger\<close>
  \<^item> \<open>Del_trainer\<close>, \<open>Gc_collect\<close>, \<open>Torch_cuda_empty_cache\<close>: the three cleanup statements
  \<^item> \<open>Os_chdir path\<close>, \<open>Print text\<close>
\<close>

datatype call =
    is_CustomLogger: CustomLogger string nat
  | is_User_login: User_login obj
  | is_Logger_info: Logger_info obj string
  | is_Load_func: Load_func loader string obj
  | is_Load_and_process_dataset: Load_and_process_dataset obj string string string obj
  | is_Load_and_prepare_unsloth_dataset: Load_and_prepare_unsloth_dataset obj string obj
  | is_Create_SFT_trainer: Create_SFT_trainer obj obj split split obj bool obj nat
  | is_Train_and_save_model: Train_and_save_model obj string bool obj
  | Del_trainer
  | Gc_collect
  | Torch_cuda_empty_cache
  | is_Os_chdir: Os_chdir string
  | is_Print: Print string

datatype outcome = Returned | Raised exn

text \<open>A trace entry: the call, the working directory in which it was made, and how it
  ended.\<close>

record entry =
  call :: call
  at :: string
  outcome :: outcome

record proc =
  cwd :: string
  trace :: "entry list"

text \<open>
  The environment: the directory of the script file
  (\<open>os.path.dirname(os.path.abspath(__file__))\<close>), the truth value of an object, and the
  outcome of each call, by return type. Every outcome may depend on the trace so far.
\<close>

record env =
  script_dir :: string
  truthy :: "obj \<Rightarrow> bool"
  returns_none :: "entry list \<Rightarrow> call \<Rightarrow> exn + unit"
  returns_obj :: "entry list \<Rightarrow> call \<Rightarrow> exn + obj"
  returns_triple :: "entry list \<Rightarrow> call \<Rightarrow> exn + (obj \<times> obj \<times> obj)"
  returns_dataset :: "entry list \<Rightarrow> call \<Rightarrow> exn + dataset"
  returns_pair :: "entry list \<Rightarrow> call \<Rightarrow> exn + (dataset \<times> obj)"

subsection \<open>Sequencing with exceptions\<close>

text \<open>A statement takes the process state and gives the exception it raised or its value,
  with the new state. \<open>bindM\<close> is the semicolon: an exception skips everything after it.\<close>

type_synonym 'a M = "proc \<Rightarrow> (exn + 'a) \<times> proc"

definition ret :: "'a \<Rightarrow> 'a M" where
  "ret v st = (Inr v, st)"

definition lift :: "exn + 'a \<Rightarrow> 'a M" where
  "lift r st = (r, st)"

definition bindM :: "'a M \<Rightarrow> ('a \<Rightarrow> 'b M) \<Rightarrow> 'b M" where
  "bindM m f st = (case m st of (Inl e, st') \<Rightarrow> (Inl e, st') | (Inr v, st') \<Rightarrow> f v st')"

fun outcome_of :: "exn + 'a \<Rightarrow> outcome" where
  "outcome_of (Inl e) = Raised e"
| "outcome_of (Inr v) = Returned"

text \<open>A call of a helper: the environment decides the outcome, and the call is recorded
  whether it returns or raises.\<close>

definition invoke :: "(entry list \<Rightarrow> call \<Rightarrow> exn + 'a) \<Rightarrow> call \<Rightarrow> 'a M" where
  "invoke out c st =
     (let r = out (trace st) c
      in (r, st\<lparr>trace := trace st @ [\<lparr>call = c, at = cwd st, outcome = outcome_of r\<rparr>]\<rparr>))"

text \<open>A statement of the language or the runtime that does not raise (\<open>del\<close>,
  \<open>gc.collect()\<close>, \<open>print\<close>).\<close>

definition perform :: "call \<Rightarrow> unit M" where
  "perform c st =
     (Inr (), st\<lparr>trace := trace st @ [\<lparr>call = c, at = cwd st, outcome = Returned\<rparr>]\<rparr>)"

definition os_getcwd :: "string M" where
  "os_getcwd st = (Inr (cwd st), st)"

definition os_chdir :: "env \<Rightarrow> string \<Rightarrow> unit M" where
  "os_chdir E path =
     bindM (invoke (returns_none E) (Os_chdir path)) (\<lambda>_ st. (Inr (), st\<lparr>cwd := path\<rparr>))"

subsection \<open>Argument parsing\<close>

text \<open>
  The parser declares one option, \<open>--model\<close>, with \<open>choices=["base", "unsloth"]\<close>, no
  default and not required. The command line is given as the list of values supplied to
  \<open>--model\<close>, in order (empty when the option is absent). \<open>argparse\<close> checks every supplied
  value against the choices and exits with status 2 on the first one that is not among
  them; the last value is stored; an option that is absent leaves the attribute \<open>None\<close>.
\<close>

record args =
  model :: "string option"

fun parse_args :: "string list \<Rightarrow> string option \<Rightarrow> string list \<Rightarrow> exn + args" where
  "parse_args choices cur [] = Inr \<lparr>model = cur\<rparr>"
| "parse_args choices cur (v # vs) =
     (if v \<in> set choices then parse_args choices (Some v) vs else Inl (SystemExit 2))"

subsection \<open>\<open>main\<close>\<close>

definition main :: "env \<Rightarrow> args \<Rightarrow> unit M" where
  "main E args =
    (let model_type = model args in
     bindM (invoke (returns_obj E) (CustomLogger ''__main__'' 10)) (\<lambda>logger.
     bindM (invoke (returns_none E) (User_login logger)) (\<lambda>_.
     let embedding_model_name = ''sentence-transformers/all-mpnet-base-v2'';
         db_directory = os_path_join ''..'' [''chroma_db''];
         (base_model, load_func) =
           (if model_type = Some ''base''
            then (''meta-llama/Meta-Llama-3-8B-Instruct'', load_model_and_tokenizer)
            else (''unsloth/Meta-Llama-3.1-8B-bnb-4bit'', load_unsloth_model_and_tokenizer));
         new_model = ''stf-'' @ format_value model_type @ ''-Llama-3-8B-Instruct''
     in
     bindM (invoke (returns_none E) (Logger_info logger (''Loading base model: '' @ base_model))) (\<lambda>_.
     bindM (invoke (returns_triple E) (Load_func load_func base_model logger)) (\<lambda>(model', tokenizer, peft_config).
     bindM
       (if model_type = Some ''base''
        then
          (let dataset_name = os_path_join ''..'' [''data'', ''train'', ''mrd3_dataset.json''] in
           bindM (invoke (returns_none E) (Logger_info logger (''Loading SFT dataset: '' @ dataset_name))) (\<lambda>_.
           bindM (invoke (returns_pair E)
                    (Load_and_process_dataset tokenizer dataset_name embedding_model_name db_directory logger))
             (\<lambda>(dataset, _). ret dataset)))
        else
          (let dataset_name = ''yahma/alpaca-cleaned'' in
           bindM (invoke (returns_none E) (Logger_info logger (''Loading SFT dataset: '' @ dataset_name))) (\<lambda>_.
           invoke (returns_dataset E) (Load_and_prepare_unsloth_dataset tokenizer dataset_name logger))))
       (\<lambda>dataset.
     bindM (invoke (returns_none E) (Logger_info logger ''Example of training input --------'')) (\<lambda>_.
     bindM (lift (getitem dataset ''train_demo'')) (\<lambda>train_demo.
     bindM (lift (getitem train_demo ''text'')) (\<lambda>text.
     bindM (lift (getitem0 text)) (\<lambda>example.
     bindM (invoke (returns_none E) (Logger_info logger example)) (\<lambda>_.
     bindM (invoke (returns_none E) (Logger_info logger ''Creating SFT trainer...'')) (\<lambda>_.
     bindM (lift (getitem dataset ''train_demo'')) (\<lambda>train_split.
     bindM (lift (getitem dataset ''eval_demo'')) (\<lambda>eval_split.
     bindM (invoke (returns_obj E)
              (Create_SFT_trainer model' tokenizer train_split eval_split peft_config True logger 1))
       (\<lambda>trainer.
     bindM (invoke (returns_none E) (Train_and_save_model trainer new_model True logger)) (\<lambda>_.
     bindM (perform Del_trainer) (\<lambda>_.
     bindM (perform Gc_collect) (\<lambda>_.
     bindM (invoke (returns_none E) Torch_cuda_empty_cache) (\<lambda>_.
     if truthy E logger
     then invoke (returns_none E) (Logger_info logger ''Cleaned up memory post-training.'')
     else ret ())))))))))))))))))))"

subsection \<open>The script body\<close>

text \<open>The block under \<open>if __name__ == "__main__"\<close>: parse, move to the script's directory
  when the working directory differs from it, then call \<open>main\<close>.\<close>

definition script :: "env \<Rightarrow> string list \<Rightarrow> unit M" where
  "script E argv =
     bindM (lift (parse_args [''base'', ''unsloth''] None argv)) (\<lambda>args.
     bindM os_getcwd (\<lambda>here.
     bindM (if here \<noteq> script_dir E
            then bindM (os_chdir E (script_dir E)) (\<lambda>_.
                 perform (Print (''Working directory changed to script's directory: '' @ script_dir E)))
            else ret ())
       (\<lambda>_. main E args)))"

subsection \<open>Runs and what holds after them\<close>

text \<open>\<open>wp m Q st\<close>: running \<open>m\<close> from \<open>st\<close> ends in a result and a state that satisfy
  \<open>Q\<close>.\<close>

definition wp :: "'a M \<Rightarrow> (exn + 'a \<Rightarrow> proc \<Rightarrow> bool) \<Rightarrow> proc \<Rightarrow> bool" where
  "wp m Q st = (case m st of (r, st') \<Rightarrow> Q r st')"

text \<open>The three calls that load a model or a dataset.\<close>

definition is_access :: "entry \<Rightarrow> bool" where
  "is_access x =
     (is_Load_func (call x) \<or> is_Load_and_process_dataset (call x)
      \<or> is_Load_and_prepare_unsloth_dataset (call x))"

definition login_returned :: "entry \<Rightarrow> bool" where
  "login_returned x = (is_User_login (call x) \<and> outcome x = Returned)"

definition train_returned :: "entry \<Rightarrow> bool" where
  "train_returned x = (is_Train_and_save_model (call x) \<and> outcome x = Returned)"

subsection \<open>Two concrete environments\<close>

text \<open>An environment in which every helper returns, and one in which training raises.
  They give concrete runs on which the theorems below are instantiated.\<close>

definition demo_dataset :: dataset where
  "demo_dataset =
     [(''train_demo'', [(''text'', [''Say hello.''])]),
      (''eval_demo'', [(''text'', [''Say bye.''])])]"

definition demo_objects :: "call \<Rightarrow> obj" where
  "demo_objects c = (if is_CustomLogger c then Obj 0 else Obj 4)"

definition env_ok :: env where
  "env_ok =
     \<lparr>script_dir = ''/app/src'',
      truthy = (\<lambda>_. True),
      returns_none = (\<lambda>_ _. Inr ()),
      returns_obj = (\<lambda>_ c. Inr (demo_objects c)),
      returns_triple = (\<lambda>_ _. Inr (Obj 1, Obj 2, Obj 3)),
      returns_dataset = (\<lambda>_ _. Inr demo_dataset),
      returns_pair = (\<lambda>_ _. Inr (demo_dataset, Obj 5))\<rparr>"

definition env_oom :: env where
  "env_oom =
     env_ok\<lparr>returns_none :=
       (\<lambda>_ c. if is_Train_and_save_model c then Inl (Exn ''OutOfMemoryError'') else Inr ())\<rparr>"

definition returned_at :: "string \<Rightarrow> call \<Rightarrow> entry" where
  "returned_at d c = \<lparr>call = c, at = d, outcome = Returned\<rparr>"

definition demo_split :: "string \<Rightarrow> split" where
  "demo_split s = [(''text'', [s])]"

definition calls_after_load :: "string \<Rightarrow> call list" where
  "calls_after_load new_model =
     [Logger_info (Obj 0) ''Example of training input --------'',
      Logger_info (Obj 0) ''Say hello.'',
      Logger_info (Obj 0) ''Creating SFT trainer...'',
      Create_SFT_trainer (Obj 1) (Obj 2) (demo_split ''Say hello.'') (demo_split ''Say bye.'')
        (Obj 3) True (Obj 0) 1,
      Train_and_save_model (Obj 4) new_model True (Obj 0),
      Del_trainer, Gc_collect, Torch_cuda_empty_cache,
      Logger_info (Obj 0) ''Cleaned up memory post-training.'']"

definition calls_base :: "call list" where
  "calls_base =
     [CustomLogger ''__main__'' 10,
      User_login (Obj 0),
      Logger_info (Obj 0) ''Loading base model: meta-llama/Meta-Llama-3-8B-Instruct'',
      Load_func load_model_and_tokenizer ''meta-llama/Meta-Llama-3-8B-Instruct'' (Obj 0),
      Logger_info (Obj 0) ''Loading SFT dataset: ../data/train/mrd3_dataset.json'',
      Load_and_process_dataset (Obj 2) ''../data/train/mrd3_dataset.json''
        ''sentence-transformers/all-mpnet-base-v2'' ''../chroma_db'' (Obj 0)]
     @ calls_after_load ''stf-base-Llama-3-8B-Instruct''"

definition calls_unsloth :: "string \<Rightarrow> call list" where
  "calls_unsloth new_model =
     [CustomLogger ''__main__'' 10,
      User_login (Obj 0),
      Logger_info (Obj 0) ''Loading base model: unsloth/Meta-Llama-3.1-8B-bnb-4bit'',
      Load_func load_unsloth_model_and_tokenizer ''unsloth/Meta-Llama-3.1-8B-bnb-4bit'' (Obj 0),
      Logger_info (Obj 0) ''Loading SFT dataset: yahma/alpaca-cleaned'',
      Load_and_prepare_unsloth_dataset (Obj 2) ''yahma/alpaca-cleaned'' (Obj 0)]
     @ calls_after_load new_model"

text \<open>The traces of five runs: both modes in the environment where everything returns, the
  run in which training raises, and the script started from another directory, without
  \<open>--model\<close> and with \<open>--model base\<close>.\<close>

definition trace_base :: "entry list" where
  "trace_base = map (returned_at ''/app/src'') calls_base"

definition trace_unsloth :: "entry list" where
  "trace_unsloth =
     map (returned_at ''/app/src'') (calls_unsloth ''stf-unsloth-Llama-3-8B-Instruct'')"

definition trace_oom :: "entry list" where
  "trace_oom =
     map (returned_at ''/app/src'') (take 10 calls_base)
     @ [\<lparr>call = Train_and_save_model (Obj 4) ''stf-base-Llama-3-8B-Instruct'' True (Obj 0),
         at = ''/app/src'', outcome = Raised (Exn ''OutOfMemoryError'')\<rparr>]"

definition trace_none :: "entry list" where
  "trace_none =
     returned_at ''/home/user'' (Os_chdir ''/app/src'')
     # map (returned_at ''/app/src'')
         (Print ''Working directory changed to script's directory: /app/src''
          # calls_unsloth ''stf-None-Llama-3-8B-Instruct'')"

definition trace_script_base :: "entry list" where
  "trace_script_base =
     returned_at ''/home/user'' (Os_chdir ''/app/src'')
     # map (returned_at ''/app/src'')
         (Print ''Working directory changed to script's directory: /app/src'' # calls_base)"

section \<open>Proof rules\<close>

text \<open>Symbolic execution: one rule for each shape of statement. A call may return or
  raise; both continuations are followed, with the trace extended by the entry.\<close>

lemma wpD: "wp m Q st \<Longrightarrow> m st = (r, st') \<Longrightarrow> Q r st'"
  by (simp add: wp_def)

lemma exec_ret: "Q (Inr v) st \<Longrightarrow> wp (ret v) Q st"
  by (simp add: wp_def ret_def)

lemma exec_invoke:
  assumes "\<And>e. Q (Inl e) \<lparr>cwd = d, trace = tr @ [\<lparr>call = c, at = d, outcome = Raised e\<rparr>]\<rparr>"
    and "\<And>v. Q (Inr v) \<lparr>cwd = d, trace = tr @ [\<lparr>call = c, at = d, outcome = Returned\<rparr>]\<rparr>"
  shows "wp (invoke out c) Q \<lparr>cwd = d, trace = tr\<rparr>"
  using assms by (cases "out tr c") (simp_all add: wp_def invoke_def)

lemma exec_bind_ret: "wp (f v) Q st \<Longrightarrow> wp (bindM (ret v) f) Q st"
  by (simp add: wp_def bindM_def ret_def)

lemma exec_bind_lift:
  assumes "\<And>e. Q (Inl e) st" and "\<And>v. wp (f v) Q st"
  shows "wp (bindM (lift r) f) Q st"
  using assms by (cases r) (simp_all add: wp_def bindM_def lift_def)

lemma exec_bind_invoke:
  assumes "\<And>e. Q (Inl e) \<lparr>cwd = d, trace = tr @ [\<lparr>call = c, at = d, outcome = Raised e\<rparr>]\<rparr>"
    and "\<And>v. wp (f v) Q \<lparr>cwd = d, trace = tr @ [\<lparr>call = c, at = d, outcome = Returned\<rparr>]\<rparr>"
  shows "wp (bindM (invoke out c) f) Q \<lparr>cwd = d, trace = tr\<rparr>"
  using assms by (cases "out tr c") (simp_all add: wp_def bindM_def invoke_def)

lemma exec_bind_perform:
  assumes "wp (f ()) Q \<lparr>cwd = d, trace = tr @ [\<lparr>call = c, at = d, outcome = Returned\<rparr>]\<rparr>"
  shows "wp (bindM (perform c) f) Q \<lparr>cwd = d, trace = tr\<rparr>"
  using assms by (simp add: wp_def bindM_def perform_def)

lemma exec_bind_bind:
  "wp (bindM m (\<lambda>v. bindM (f v) g)) Q st \<Longrightarrow> wp (bindM (bindM m f) g) Q st"
  by (simp add: wp_def bindM_def split: prod.splits sum.splits)

lemma exec_bind_if:
  assumes "b \<Longrightarrow> wp (bindM m1 g) Q st" and "\<not> b \<Longrightarrow> wp (bindM m2 g) Q st"
  shows "wp (bindM (if b then m1 else m2) g) Q st"
  using assms by simp

lemma exec_bind_case_prod:
  assumes "\<And>a b. wp (bindM (h a b) g) Q st"
  shows "wp (bindM (case_prod h p) g) Q st"
  using assms by (cases p) simp

lemma exec_if:
  assumes "b \<Longrightarrow> wp m1 Q st" and "\<not> b \<Longrightarrow> wp m2 Q st"
  shows "wp (if b then m1 else m2) Q st"
  using assms by simp

lemma exec_case_prod:
  assumes "\<And>a b. wp (h a b) Q st"
  shows "wp (case_prod h p) Q st"
  using assms by (cases p) simp

lemmas exec_rules = exec_ret exec_invoke exec_bind_ret exec_bind_lift exec_bind_invoke
  exec_bind_perform exec_bind_bind exec_bind_if exec_bind_case_prod exec_if exec_case_prod

section \<open>Concrete runs\<close>

lemmas eval_defs = main_def bindM_def invoke_def perform_def ret_def lift_def Let_def
  getitem_def getitem0_def join_step_def env_ok_def env_oom_def demo_objects_def
  demo_dataset_def demo_split_def returned_at_def calls_after_load_def calls_base_def
  calls_unsloth_def os_chdir_def os_getcwd_def script_def trace_base_def trace_unsloth_def
  trace_oom_def trace_none_def trace_script_base_def

lemma main_base_run:
  "main env_ok \<lparr>model = Some ''base''\<rparr> \<lparr>cwd = ''/app/src'', trace = []\<rparr>
     = (Inr (), \<lparr>cwd = ''/app/src'', trace = trace_base\<rparr>)"
  by (simp add: eval_defs)

lemma main_unsloth_run:
  "main env_ok \<lparr>model = Some ''unsloth''\<rparr> \<lparr>cwd = ''/app/src'', trace = []\<rparr>
     = (Inr (), \<lparr>cwd = ''/app/src'', trace = trace_unsloth\<rparr>)"
  by (simp add: eval_defs)

lemma main_oom_run:
  "main env_oom \<lparr>model = Some ''base''\<rparr> \<lparr>cwd = ''/app/src'', trace = []\<rparr>
     = (Inl (Exn ''OutOfMemoryError''), \<lparr>cwd = ''/app/src'', trace = trace_oom\<rparr>)"
  by (simp add: eval_defs)


lemma script_base_run:
  "script env_ok [''base''] \<lparr>cwd = ''/home/user'', trace = []\<rparr>
     = (Inr (), \<lparr>cwd = ''/app/src'', trace = trace_script_base\<rparr>)"
  by (simp add: eval_defs)

lemmas trace_defs = trace_base_def trace_unsloth_def trace_oom_def trace_none_def
  trace_script_base_def
  calls_base_def calls_unsloth_def calls_after_load_def returned_at_def demo_split_def

section \<open>Paths, parsing and the script body\<close>

lemma dataset_path:
  "os_path_join ''..'' [''data'', ''train'', ''mrd3_dataset.json''] = ''../data/train/mrd3_dataset.json''"
  by (simp add: join_step_def)

lemma db_path: "os_path_join ''..'' [''chroma_db''] = ''../chroma_db''"
  by (simp add: join_step_def)

lemma parse_args_rejects:
  "v \<in> set argv \<Longrightarrow> v \<notin> set choices \<Longrightarrow> parse_args choices cur argv = Inl (SystemExit 2)"
  by (induction argv arbitrary: cur) auto

lemma parse_args_accepts:
  "set argv \<subseteq> set choices \<Longrightarrow>
     parse_args choices cur argv = Inr \<lparr>model = (if argv = [] then cur else Some (last argv))\<rparr>"
  by (induction argv arbitrary: cur) auto

text \<open>The script body, once the arguments are parsed: \<open>main\<close> runs in the script's
  directory, after a \<open>chdir\<close> and a \<open>print\<close> when the directory differs.\<close>

lemma exec_script:
  assumes "parse_args [''base'', ''unsloth''] None argv = Inr args"
    and "\<And>e. d \<noteq> script_dir E \<Longrightarrow>
           Q (Inl e) \<lparr>cwd = d, trace = tr @ [\<lparr>call = Os_chdir (script_dir E), at = d, outcome = Raised e\<rparr>]\<rparr>"
    and "d \<noteq> script_dir E \<Longrightarrow>
           wp (main E args) Q
             \<lparr>cwd = script_dir E,
              trace = tr @ [\<lparr>call = Os_chdir (script_dir E), at = d, outcome = Returned\<rparr>,
                \<lparr>call = Print (''Working directory changed to script's directory: '' @ script_dir E),
                 at = script_dir E, outcome = Returned\<rparr>]\<rparr>"
    and "d = script_dir E \<Longrightarrow> wp (main E args) Q \<lparr>cwd = d, trace = tr\<rparr>"
  shows "wp (script E argv) Q \<lparr>cwd = d, trace = tr\<rparr>"
proof (cases "d = script_dir E")
  case True
  with assms(1,4) show ?thesis
    by (simp add: wp_def script_def bindM_def lift_def os_getcwd_def ret_def)
next
  case False
  show ?thesis
  proof (cases "returns_none E tr (Os_chdir (script_dir E))")
    case (Inl e)
    with False assms(1) assms(2) [of e] show ?thesis
      by (simp add: wp_def script_def bindM_def lift_def os_getcwd_def os_chdir_def invoke_def)
  next
    case (Inr u)
    with False assms(1,3) show ?thesis
      by (simp add: wp_def script_def bindM_def lift_def os_getcwd_def os_chdir_def invoke_def
          perform_def)
  qed
qed

lemma exec_script_rejected:
  assumes "parse_args [''base'', ''unsloth''] None argv = Inl e" and "Q (Inl e) st"
  shows "wp (script E argv) Q st"
  using assms by (simp add: wp_def script_def bindM_def lift_def)

lemma wp_mono: "wp m Q st \<Longrightarrow> (\<And>r st'. Q r st' \<Longrightarrow> Q' r st') \<Longrightarrow> wp m Q' st"
  by (auto simp: wp_def split: prod.splits)

text \<open>If no entry before the first returned login is a load, then every load has a
  returned login before it.\<close>

lemma login_before:
  assumes "\<forall>x\<in>set (takeWhile (\<lambda>x. \<not> login_returned x) tr). \<not> is_access x"
    and "tr = pre @ x # post" and "is_access x"
  shows "\<exists>y\<in>set pre. login_returned y"
proof (rule ccontr)
  assume "\<not> (\<exists>y\<in>set pre. login_returned y)"
  then have pre: "\<forall>y\<in>set pre. \<not> login_returned y" by simp
  from assms(3) have "\<not> login_returned x"
    by (auto simp: is_access_def login_returned_def)
  with pre assms(2) have "x \<in> set (takeWhile (\<lambda>x. \<not> login_returned x) tr)"
    by simp
  with assms(1,3) show False by blast
qed

section \<open>Model and dataset selection\<close>

text \<open>
  Claim C1. In a run of \<open>main\<close> with mode \<open>"base"\<close>, every call of the loader is a call of
  \<open>load_model_and_tokenizer\<close> with \<open>"meta-llama/Meta-Llama-3-8B-Instruct"\<close>; with mode
  \<open>"unsloth"\<close>, it is a call of \<open>load_unsloth_model_and_tokenizer\<close> with
  \<open>"unsloth/Meta-Llama-3.1-8B-bnb-4bit"\<close>. The loader call is the fourth call of the run, and
  a run stops short of it only when one of the three calls before it raised.
\<close>

theorem model_and_loader_selection:
  "wp (main E a)
     (\<lambda>r st'.
        (model a = Some ''base'' \<longrightarrow>
           (\<forall>x\<in>set (trace st'). is_Load_func (call x) \<longrightarrow>
              (\<exists>lg. call x = Load_func load_model_and_tokenizer
                                ''meta-llama/Meta-Llama-3-8B-Instruct'' lg))) \<and>
        (model a = Some ''unsloth'' \<longrightarrow>
           (\<forall>x\<in>set (trace st'). is_Load_func (call x) \<longrightarrow>
              (\<exists>lg. call x = Load_func load_unsloth_model_and_tokenizer
                                ''unsloth/Meta-Llama-3.1-8B-bnb-4bit'' lg))) \<and>
        (case drop 3 (trace st') of
           [] \<Rightarrow> \<exists>e. r = Inl e \<and> trace st' \<noteq> [] \<and> outcome (last (trace st')) = Raised e
         | x # _ \<Rightarrow> is_Load_func (call x)))
     \<lparr>cwd = d, trace = []\<rparr>"
proof (cases "model a = Some ''base''")
  case True
  show ?thesis
    unfolding main_def Let_def
    apply (simp only: True if_True prod.case simp_thms)
    apply (intro exec_rules)
    apply simp_all
    done
next
  case False
  show ?thesis
    unfolding main_def Let_def
    apply (simp only: False if_False prod.case simp_thms)
    apply (intro exec_rules)
    apply (simp_all add: False)
    done
qed

theorem model_and_loader_selection_witness:
  "(\<exists>lg. call (trace_base ! 3)
        = Load_func load_model_and_tokenizer ''meta-llama/Meta-Llama-3-8B-Instruct'' lg)
   \<and> (\<exists>lg. call (trace_unsloth ! 3)
        = Load_func load_unsloth_model_and_tokenizer ''unsloth/Meta-Llama-3.1-8B-bnb-4bit'' lg)"
proof -
  have b: "trace_base ! 3 \<in> set trace_base" "is_Load_func (call (trace_base ! 3))"
    by (simp_all add: trace_defs)
  have u: "trace_unsloth ! 3 \<in> set trace_unsloth" "is_Load_func (call (trace_unsloth ! 3))"
    by (simp_all add: trace_defs)
  from wpD [OF model_and_loader_selection main_base_run]
  have "\<forall>x\<in>set trace_base. is_Load_func (call x) \<longrightarrow>
      (\<exists>lg. call x = Load_func load_model_and_tokenizer ''meta-llama/Meta-Llama-3-8B-Instruct'' lg)"
    by simp
  moreover from wpD [OF model_and_loader_selection main_unsloth_run]
  have "\<forall>x\<in>set trace_unsloth. is_Load_func (call x) \<longrightarrow>
      (\<exists>lg. call x = Load_func load_unsloth_model_and_tokenizer
         ''unsloth/Meta-Llama-3.1-8B-bnb-4bit'' lg)"
    by simp
  ultimately show ?thesis using b u by blast
qed

text \<open>
  Claim C2. In a run of \<open>main\<close> with mode \<open>"base"\<close>, every dataset call is a call of
  \<open>load_and_process_dataset\<close> with the path \<open>"../data/train/mrd3_dataset.json"\<close> (and the
  embedding model and the vector-store directory \<open>"../chroma_db"\<close>), and
  \<open>load_and_prepare_unsloth_dataset\<close> is never called; with mode \<open>"unsloth"\<close>, every dataset
  call is a call of \<open>load_and_prepare_unsloth_dataset\<close> with \<open>"yahma/alpaca-cleaned"\<close>, and
  \<open>load_and_process_dataset\<close> is never called. The dataset call is the sixth call of the
  run, and a run stops short of it only when one of the calls before it raised.
\<close>

theorem dataset_selection:
  "wp (main E a)
     (\<lambda>r st'.
        (model a = Some ''base'' \<longrightarrow>
           (\<forall>x\<in>set (trace st').
              (is_Load_and_process_dataset (call x) \<longrightarrow>
                 (\<exists>tok lg. call x = Load_and_process_dataset tok ''../data/train/mrd3_dataset.json''
                    ''sentence-transformers/all-mpnet-base-v2'' ''../chroma_db'' lg)) \<and>
              \<not> is_Load_and_prepare_unsloth_dataset (call x)) \<and>
           (case drop 5 (trace st') of [] \<Rightarrow> True
            | x # _ \<Rightarrow> is_Load_and_process_dataset (call x))) \<and>
        (model a = Some ''unsloth'' \<longrightarrow>
           (\<forall>x\<in>set (trace st').
              (is_Load_and_prepare_unsloth_dataset (call x) \<longrightarrow>
                 (\<exists>tok lg. call x = Load_and_prepare_unsloth_dataset tok ''yahma/alpaca-cleaned'' lg)) \<and>
              \<not> is_Load_and_process_dataset (call x)) \<and>
           (case drop 5 (trace st') of [] \<Rightarrow> True
            | x # _ \<Rightarrow> is_Load_and_prepare_unsloth_dataset (call x))) \<and>
        (drop 5 (trace st') = [] \<longrightarrow>
           (\<exists>e. r = Inl e \<and> trace st' \<noteq> [] \<and> outcome (last (trace st')) = Raised e)))
     \<lparr>cwd = d, trace = []\<rparr>"
proof (cases "model a = Some ''base''")
  case True
  show ?thesis
    unfolding main_def Let_def dataset_path db_path
    apply (simp only: True if_True prod.case simp_thms)
    apply (intro exec_rules)
    apply simp_all
    done
next
  case False
  show ?thesis
    unfolding main_def Let_def dataset_path db_path
    apply (simp only: False if_False prod.case simp_thms)
    apply (intro exec_rules)
    apply (simp_all add: False)
    done
qed

theorem dataset_selection_witness:
  "(\<exists>tok lg. call (trace_base ! 5)
        = Load_and_process_dataset tok ''../data/train/mrd3_dataset.json''
            ''sentence-transformers/all-mpnet-base-v2'' ''../chroma_db'' lg)
   \<and> (\<exists>tok lg. call (trace_unsloth ! 5)
        = Load_and_prepare_unsloth_dataset tok ''yahma/alpaca-cleaned'' lg)"
proof -
  have b: "trace_base ! 5 \<in> set trace_base"
    "is_Load_and_process_dataset (call (trace_base ! 5))"
    by (simp_all add: trace_defs)
  have u: "trace_unsloth ! 5 \<in> set trace_unsloth"
    "is_Load_and_prepare_unsloth_dataset (call (trace_unsloth ! 5))"
    by (simp_all add: trace_defs)
  from wpD [OF dataset_selection main_base_run]
  have "\<forall>x\<in>set trace_base. is_Load_and_process_dataset (call x) \<longrightarrow>
      (\<exists>tok lg. call x = Load_and_process_dataset tok ''../data/train/mrd3_dataset.json''
         ''sentence-transformers/all-mpnet-base-v2'' ''../chroma_db'' lg)"
    by simp
  moreover from wpD [OF dataset_selection main_unsloth_run]
  have "\<forall>x\<in>set trace_unsloth. is_Load_and_prepare_unsloth_dataset (call x) \<longrightarrow>
      (\<exists>tok lg. call x = Load_and_prepare_unsloth_dataset tok ''yahma/alpaca-cleaned'' lg)"
    by simp
  ultimately show ?thesis using b u by blast
qed

text \<open>
  Claim C8. The mode is read once (\<open>model_type = args.model\<close>) and both branches test that one
  value, so in every run, for every value of the option, either the run is a base run
  (\<open>model_type == "base"\<close>: every loader call is the standard loader with the base model, every
  dataset call is \<open>load_and_process_dataset\<close> on the local JSON file) or it is an unsloth run
  (every loader call is the unsloth loader with the quantized model, every dataset call is
  \<open>load_and_prepare_unsloth_dataset\<close> on the public dataset). No run mixes the two.
\<close>

theorem mode_decides_both_branches:
  "wp (main E a)
     (\<lambda>r st'.
        (model a = Some ''base'' \<and>
           (\<forall>x\<in>set (trace st').
              (is_Load_func (call x) \<longrightarrow>
                 (\<exists>lg. call x = Load_func load_model_and_tokenizer
                    ''meta-llama/Meta-Llama-3-8B-Instruct'' lg)) \<and>
              (is_Load_and_process_dataset (call x) \<longrightarrow>
                 (\<exists>tok emb db lg. call x = Load_and_process_dataset tok
                    ''../data/train/mrd3_dataset.json'' emb db lg)) \<and>
              \<not> is_Load_and_prepare_unsloth_dataset (call x)))
        \<or>
        (model a \<noteq> Some ''base'' \<and>
           (\<forall>x\<in>set (trace st').
              (is_Load_func (call x) \<longrightarrow>
                 (\<exists>lg. call x = Load_func load_unsloth_model_and_tokenizer
                    ''unsloth/Meta-Llama-3.1-8B-bnb-4bit'' lg)) \<and>
              (is_Load_and_prepare_unsloth_dataset (call x) \<longrightarrow>
                 (\<exists>tok lg. call x = Load_and_prepare_unsloth_dataset tok
                    ''yahma/alpaca-cleaned'' lg)) \<and>
              \<not> is_Load_and_process_dataset (call x))))
     \<lparr>cwd = d, trace = []\<rparr>"
proof (cases "model a = Some ''base''")
  case True
  show ?thesis
    unfolding main_def Let_def dataset_path db_path
    apply (simp only: True if_True prod.case simp_thms)
    apply (intro exec_rules)
    apply simp_all
    done
next
  case False
  show ?thesis
    unfolding main_def Let_def dataset_path db_path
    apply (simp only: False if_False prod.case simp_thms)
    apply (intro exec_rules)
    apply (simp_all add: False)
    done
qed

theorem mode_decides_both_branches_witness:
  "is_Load_func (call (trace_base ! 3)) \<and> is_Load_and_process_dataset (call (trace_base ! 5))
   \<and> \<not> is_Load_and_prepare_unsloth_dataset (call (trace_base ! 5))
   \<and> is_Load_func (call (trace_unsloth ! 3))
   \<and> is_Load_and_prepare_unsloth_dataset (call (trace_unsloth ! 5))
   \<and> \<not> is_Load_and_process_dataset (call (trace_unsloth ! 5))"
proof -
  have b: "trace_base ! 5 \<in> set trace_base" "is_Load_func (call (trace_base ! 3))"
    "is_Load_and_process_dataset (call (trace_base ! 5))"
    by (simp_all add: trace_defs)
  have u: "trace_unsloth ! 5 \<in> set trace_unsloth" "is_Load_func (call (trace_unsloth ! 3))"
    "is_Load_and_prepare_unsloth_dataset (call (trace_unsloth ! 5))"
    by (simp_all add: trace_defs)
  from wpD [OF mode_decides_both_branches main_base_run]
  have "\<forall>x\<in>set trace_base. \<not> is_Load_and_prepare_unsloth_dataset (call x)"
    by simp
  moreover from wpD [OF mode_decides_both_branches main_unsloth_run]
  have "\<forall>x\<in>set trace_unsloth. \<not> is_Load_and_process_dataset (call x)"
    by simp
  ultimately show ?thesis using b u by blast
qed

section \<open>Training and cleanup\<close>



text \<open>
  Claim C6. In every run of \<open>main\<close>, the three cleanup statements (\<open>del trainer\<close>,
  \<open>gc.collect()\<close>, \<open>torch.cuda.empty_cache()\<close>) are all executed when
  \<open>train_and_save_model\<close> was called and returned, and none of them is executed otherwise
  (when it raised, or when the run ended before reaching it).
\<close>

theorem cleanup_iff_training_returned:
  "wp (main E a)
     (\<lambda>r st'.
        ((\<exists>x\<in>set (trace st'). train_returned x) \<longrightarrow>
           Del_trainer \<in> call ` set (trace st') \<and> Gc_collect \<in> call ` set (trace st') \<and>
           Torch_cuda_empty_cache \<in> call ` set (trace st')) \<and>
        (\<not> (\<exists>x\<in>set (trace st'). train_returned x) \<longrightarrow>
           Del_trainer \<notin> call ` set (trace st') \<and> Gc_collect \<notin> call ` set (trace st') \<and>
           Torch_cuda_empty_cache \<notin> call ` set (trace st')))
     \<lparr>cwd = d, trace = []\<rparr>"
  unfolding main_def Let_def
  by (intro exec_rules) (simp_all add: train_returned_def)

theorem cleanup_iff_training_returned_witness:
  "Del_trainer \<in> call ` set trace_base \<and> Gc_collect \<in> call ` set trace_base
   \<and> Torch_cuda_empty_cache \<in> call ` set trace_base
   \<and> Del_trainer \<notin> call ` set trace_oom \<and> Gc_collect \<notin> call ` set trace_oom
   \<and> Torch_cuda_empty_cache \<notin> call ` set trace_oom"
proof -
  have b: "\<exists>x\<in>set trace_base. train_returned x"
    by (simp add: trace_defs train_returned_def)
  have o: "\<not> (\<exists>x\<in>set trace_oom. train_returned x)"
    by (simp add: trace_defs train_returned_def)
  from wpD [OF cleanup_iff_training_returned main_base_run] b
  have "Del_trainer \<in> call ` set trace_base \<and> Gc_collect \<in> call ` set trace_base
      \<and> Torch_cuda_empty_cache \<in> call ` set trace_base"
    by simp
  moreover from wpD [OF cleanup_iff_training_returned main_oom_run] o
  have "Del_trainer \<notin> call ` set trace_oom \<and> Gc_collect \<notin> call ` set trace_oom
      \<and> Torch_cuda_empty_cache \<notin> call ` set trace_oom"
    by simp
  ultimately show ?thesis by simp
qed

section \<open>Order of the steps and failures\<close>

text \<open>No load is made before the first login that returned.\<close>

lemma no_access_before_login:
  "wp (main E a)
     (\<lambda>r st'. \<forall>x\<in>set (takeWhile (\<lambda>x. \<not> login_returned x) (trace st')). \<not> is_access x)
     \<lparr>cwd = d, trace = []\<rparr>"
  unfolding main_def Let_def
  by (intro exec_rules) (simp_all add: login_returned_def is_access_def)

text \<open>
  Claim C5. In every run of \<open>main\<close>, every call that loads a model or a dataset
  (\<open>load_func\<close>, \<open>load_and_process_dataset\<close>, \<open>load_and_prepare_unsloth_dataset\<close>) comes after
  a call of \<open>user_login\<close> that returned.
\<close>

theorem login_before_loading:
  "wp (main E a)
     (\<lambda>r st'. \<forall>pre x post. trace st' = pre @ x # post \<and> is_access x \<longrightarrow>
        (\<exists>y\<in>set pre. login_returned y))
     \<lparr>cwd = d, trace = []\<rparr>"
  by (rule wp_mono [OF no_access_before_login]) (blast dest: login_before)

theorem login_before_loading_witness:
  "is_access (trace_base ! 3) \<and> (\<exists>y\<in>set (take 3 trace_base). login_returned y)"
proof -
  have split: "trace_base = take 3 trace_base @ trace_base ! 3 # drop 4 trace_base"
    by (simp add: trace_defs)
  have acc: "is_access (trace_base ! 3)"
    by (simp add: trace_defs is_access_def)
  from wpD [OF login_before_loading main_base_run]
  have "\<forall>pre x post. trace_base = pre @ x # post \<and> is_access x \<longrightarrow>
      (\<exists>y\<in>set pre. login_returned y)"
    by simp
  with split acc show ?thesis by blast
qed

text \<open>
  Claim C7. In every run of \<open>main\<close>, a call that raises is the last call of the run, and the
  exception it raised is the result of \<open>main\<close>: nothing is called after a failure, so nothing
  is retried or recovered. A run that returns normally contains no call that raised, and
  each of the five steps (login, model load, dataset load, trainer construction, training)
  is called at most once. The same holds of the whole script, which calls \<open>main\<close> last and
  has no handler either: the exception is the result of the script.
\<close>

theorem failures_propagate:
  "wp (main E a)
     (\<lambda>r st'.
        (\<forall>x\<in>set (butlast (trace st')). outcome x = Returned) \<and>
        (\<forall>e. trace st' \<noteq> [] \<and> outcome (last (trace st')) = Raised e \<longrightarrow> r = Inl e) \<and>
        (r = Inr () \<longrightarrow> (\<forall>x\<in>set (trace st'). outcome x = Returned)) \<and>
        length (filter (\<lambda>x. is_User_login (call x)) (trace st')) \<le> 1 \<and>
        length (filter (\<lambda>x. is_Load_func (call x)) (trace st')) \<le> 1 \<and>
        length (filter (\<lambda>x. is_Load_and_process_dataset (call x)
                          \<or> is_Load_and_prepare_unsloth_dataset (call x)) (trace st')) \<le> 1 \<and>
        length (filter (\<lambda>x. is_Create_SFT_trainer (call x)) (trace st')) \<le> 1 \<and>
        length (filter (\<lambda>x. is_Train_and_save_model (call x)) (trace st')) \<le> 1)
     \<lparr>cwd = d, trace = []\<rparr> \<and>
   wp (script E argv)
     (\<lambda>r st'.
        (\<forall>x\<in>set (butlast (trace st')). outcome x = Returned) \<and>
        (\<forall>e. trace st' \<noteq> [] \<and> outcome (last (trace st')) = Raised e \<longrightarrow> r = Inl e))
     \<lparr>cwd = d, trace = []\<rparr>"
proof (intro conjI)
  show "wp (main E a)
     (\<lambda>r st'.
        (\<forall>x\<in>set (butlast (trace st')). outcome x = Returned) \<and>
        (\<forall>e. trace st' \<noteq> [] \<and> outcome (last (trace st')) = Raised e \<longrightarrow> r = Inl e) \<and>
        (r = Inr () \<longrightarrow> (\<forall>x\<in>set (trace st'). outcome x = Returned)) \<and>
        length (filter (\<lambda>x. is_User_login (call x)) (trace st')) \<le> 1 \<and>
        length (filter (\<lambda>x. is_Load_func (call x)) (trace st')) \<le> 1 \<and>
        length (filter (\<lambda>x. is_Load_and_process_dataset (call x)
                          \<or> is_Load_and_prepare_unsloth_dataset (call x)) (trace st')) \<le> 1 \<and>
        length (filter (\<lambda>x. is_Create_SFT_trainer (call x)) (trace st')) \<le> 1 \<and>
        length (filter (\<lambda>x. is_Train_and_save_model (call x)) (trace st')) \<le> 1)
     \<lparr>cwd = d, trace = []\<rparr>"
    unfolding main_def Let_def
    by (intro exec_rules) simp_all
  show "wp (script E argv)
     (\<lambda>r st'.
        (\<forall>x\<in>set (butlast (trace st')). outcome x = Returned) \<and>
        (\<forall>e. trace st' \<noteq> [] \<and> outcome (last (trace st')) = Raised e \<longrightarrow> r = Inl e))
     \<lparr>cwd = d, trace = []\<rparr>"
  proof (cases "parse_args [''base'', ''unsloth''] None argv")
    case (Inl e)
    then show ?thesis
      by (rule exec_script_rejected) simp
  next
    case (Inr args)
    show ?thesis
      apply (rule exec_script [OF Inr])
        apply simp
       apply (unfold main_def Let_def)
       apply (intro exec_rules; simp)
      apply (intro exec_rules; simp)
      done
  qed
qed

theorem failures_propagate_witness:
  "trace_oom \<noteq> [] \<and> outcome (last trace_oom) = Raised (Exn ''OutOfMemoryError'')
   \<and> fst (main env_oom \<lparr>model = Some ''base''\<rparr> \<lparr>cwd = ''/app/src'', trace = []\<rparr>)
        = Inl (Exn ''OutOfMemoryError'')
   \<and> set (map outcome trace_base) = {Returned}"
proof -
  have h: "trace_oom \<noteq> []" "outcome (last trace_oom) = Raised (Exn ''OutOfMemoryError'')"
    by (simp_all add: trace_defs)
  note oom = wpD [OF failures_propagate [THEN conjunct1] main_oom_run]
  from oom [THEN conjunct2, THEN conjunct1] h
  have "fst (main env_oom \<lparr>model = Some ''base''\<rparr> \<lparr>cwd = ''/app/src'', trace = []\<rparr>)
      = Inl (Exn ''OutOfMemoryError'')"
    by (simp add: main_oom_run)
  moreover
  note ok = wpD [OF failures_propagate [THEN conjunct1] main_base_run]
  from ok [THEN conjunct2, THEN conjunct2, THEN conjunct1]
  have "\<forall>x\<in>set trace_base. outcome x = Returned"
    by simp
  then have "set (map outcome trace_base) = {Returned}"
    by (auto simp: trace_defs)
  ultimately show ?thesis using h by simp
qed

section \<open>The command line and the working directory\<close>

text \<open>
  Claim C4. When a value given to \<open>--model\<close> is neither \<open>"base"\<close> nor \<open>"unsloth"\<close>, the script
  ends in argument parsing with exit status 2 and the process state is unchanged: no call
  has been made, so no login, no model loading and no dataset loading.
\<close>

theorem unknown_model_rejected:
  assumes "v \<in> set argv" and "v \<notin> {''base'', ''unsloth''}"
  shows "script E argv st = (Inl (SystemExit 2), st)"
proof -
  from assms have "parse_args [''base'', ''unsloth''] None argv = Inl (SystemExit 2)"
    by (intro parse_args_rejects) simp_all
  then show ?thesis
    by (simp add: script_def bindM_def lift_def)
qed

theorem unknown_model_rejected_witness:
  "script env_ok [''orpo''] \<lparr>cwd = ''/home/user'', trace = []\<rparr>
     = (Inl (SystemExit 2), \<lparr>cwd = ''/home/user'', trace = []\<rparr>)"
  using unknown_model_rejected [of "''orpo''" "[''orpo'']" env_ok "\<lparr>cwd = ''/home/user'', trace = []\<rparr>"]
  by simp



text \<open>
  Claim C10. Once the arguments are parsed, the script changes to its own directory when
  the working directory differs from it (the \<open>chdir\<close> is then the first call of the run), and
  makes no \<open>chdir\<close> otherwise. Every other call of the run, so every call made by \<open>main\<close>, is
  made in the script's directory: the two relative paths given to
  \<open>load_and_process_dataset\<close> name the files they name from the script's directory, wherever
  the script was started.
\<close>

theorem script_runs_in_its_directory:
  assumes "parse_args [''base'', ''unsloth''] None argv = Inr args"
  shows "wp (script E argv)
     (\<lambda>r st'.
        (\<forall>x\<in>set (trace st'). \<not> is_Os_chdir (call x) \<longrightarrow> at x = script_dir E) \<and>
        (\<forall>x\<in>set (trace st'). \<forall>tok dn emb db lg.
           call x = Load_and_process_dataset tok dn emb db lg \<longrightarrow>
             os_path_join (at x) [dn]
               = os_path_join (script_dir E) [''../data/train/mrd3_dataset.json''] \<and>
             os_path_join (at x) [db] = os_path_join (script_dir E) [''../chroma_db'']) \<and>
        (d \<noteq> script_dir E \<longrightarrow>
           trace st' \<noteq> [] \<and> call (hd (trace st')) = Os_chdir (script_dir E)
           \<and> at (hd (trace st')) = d) \<and>
        (d = script_dir E \<longrightarrow> (\<forall>x\<in>set (trace st'). \<not> is_Os_chdir (call x))))
     \<lparr>cwd = d, trace = []\<rparr>"
  apply (rule exec_script [OF assms])
    apply simp
   apply (unfold main_def Let_def dataset_path db_path)
   apply (intro exec_rules; simp)
  apply (intro exec_rules; simp)
  done

theorem script_runs_in_its_directory_witness:
  "call (hd trace_script_base) = Os_chdir ''/app/src''
   \<and> at (trace_script_base ! 7) = ''/app/src''
   \<and> os_path_join (at (trace_script_base ! 7)) [''../data/train/mrd3_dataset.json'']
        = ''/app/src/../data/train/mrd3_dataset.json''"
proof -
  have p: "parse_args [''base'', ''unsloth''] None [''base''] = Inr \<lparr>model = Some ''base''\<rparr>"
    by simp
  have x: "trace_script_base ! 7 \<in> set trace_script_base"
    "\<not> is_Os_chdir (call (trace_script_base ! 7))"
    by (simp_all add: trace_defs)
  note run = wpD [OF script_runs_in_its_directory [OF p] script_base_run]
  from run [THEN conjunct1] x have a: "at (trace_script_base ! 7) = ''/app/src''"
    by (simp add: env_ok_def)
  from run [THEN conjunct2, THEN conjunct2, THEN conjunct1]
  have "call (hd trace_script_base) = Os_chdir ''/app/src''"
    by (simp add: env_ok_def)
  with a show ?thesis
    by (simp add: join_step_def)
qed

end
